theory Spec2Isabelle
  imports Main "HOL-Library.Word"
begin

section \<open>JavaScript strings\<close>

text \<open>
  A JavaScript string is a sequence of UTF-16 code units. String literals of the source
  are ASCII, written here as \<open>js ''...''\<close>.
\<close>

type_synonym jsstring = "16 word list"

definition js :: "string \<Rightarrow> jsstring" where
  "js s = map of_char s"

text \<open>
  \<open>String.prototype.trim\<close> removes leading and trailing WhiteSpace and LineTerminator
  code points (ECMAScript: TAB, VT, FF, SP, NBSP, ZWNBSP, the category Zs, LF, CR, LS, PS).
\<close>

definition is_white_space :: "16 word \<Rightarrow> bool" where
  "is_white_space c \<longleftrightarrow>
     c = 0x0009 \<or> c = 0x000B \<or> c = 0x000C \<or> c = 0x0020 \<or> c = 0x00A0 \<or> c = 0xFEFF \<or>
     c = 0x1680 \<or> (0x2000 \<le> c \<and> c \<le> 0x200A) \<or> c = 0x202F \<or> c = 0x205F \<or> c = 0x3000 \<or>
     c = 0x000A \<or> c = 0x000D \<or> c = 0x2028 \<or> c = 0x2029"

definition trim :: "jsstring \<Rightarrow> jsstring" where
  "trim s = rev (dropWhile is_white_space (rev (dropWhile is_white_space s)))"

text \<open>Decimal rendering of a non-negative integer, as a template literal does.\<close>

fun to_decimal :: "nat \<Rightarrow> jsstring" where
  "to_decimal n =
     (if n < 10 then [of_nat (48 + n)]
      else to_decimal (n div 10) @ [of_nat (48 + n mod 10)])"

declare to_decimal.simps [simp del]

text \<open>\<open>Array.prototype.join\<close> on an array of strings: the separator goes between elements.\<close>

fun join :: "jsstring \<Rightarrow> jsstring list \<Rightarrow> jsstring" where
  "join sep [] = []"
| "join sep [x] = x"
| "join sep (x # y # ys) = x @ sep @ join sep (y # ys)"

section \<open>ga4.js\<close>

text \<open>
  How a call ends: it returns, or an exception leaves it.
\<close>

datatype completion = Returns | Throws

text \<open>
  \<open>typeof window === "undefined"\<close> is \<open>None\<close>. Otherwise the property \<open>window.gtag\<close> is
  falsy, or truthy but not a function (calling it is a TypeError), or a function, given by
  how a call of it ends.
\<close>

datatype gtag_property = Falsy | NotCallable | Function completion

datatype window = Window (gtag: gtag_property)

datatype jsvalue = Undefined | Str jsstring | Num int

text \<open>
  The properties the parameter pattern \<open>{ action, category, label, value }\<close> of
  \<open>trackEvent\<close> reads from its argument; a property the argument does not have is
  \<open>Undefined\<close>. The argument itself is \<open>None\<close> when it is \<open>undefined\<close> or \<open>null\<close>, which
  cannot be destructured.
\<close>

record track_args =
  action :: jsvalue
  category :: jsvalue
  label :: jsvalue
  "value" :: jsvalue

text \<open>One call \<open>window.gtag(command, name, params)\<close>.\<close>

datatype gtag_call = Gtag jsstring jsvalue "(string \<times> jsvalue) list"

text \<open>
  Each helper yields the \<open>gtag\<close> calls it issued and how it ended. The parameter of
  \<open>trackEvent\<close> is destructured on entry, before the two guards: an \<open>undefined\<close> or \<open>null\<close>
  argument throws a TypeError in every environment. The second guard tests truthiness
  only, so a truthy \<open>gtag\<close> that is not a function throws at the call.
\<close>

definition trackEvent :: "window option \<Rightarrow> track_args option \<Rightarrow> gtag_call list \<times> completion" where
  "trackEvent w arg =
     (case arg of
        None \<Rightarrow> ([], Throws)
      | Some a \<Rightarrow>
          (case w of
             None \<Rightarrow> ([], Returns)
           | Some win \<Rightarrow>
               (case gtag win of
                  Falsy \<Rightarrow> ([], Returns)
                | NotCallable \<Rightarrow> ([], Throws)
                | Function c \<Rightarrow>
                    ([Gtag (js ''event'') (action a)
                        [(''event_category'', category a),
                         (''event_label'', label a),
                         (''value'', value a)]], c))))"

definition trackPageView :: "window option \<Rightarrow> jsvalue \<Rightarrow> gtag_call list \<times> completion" where
  "trackPageView w path =
     (case w of
        None \<Rightarrow> ([], Returns)
      | Some win \<Rightarrow>
          (case gtag win of
             Falsy \<Rightarrow> ([], Returns)
           | NotCallable \<Rightarrow> ([], Throws)
           | Function c \<Rightarrow>
               ([Gtag (js ''event'') (Str (js ''page_view'')) [(''page_path'', path)]], c)))"

section \<open>App.js: data\<close>

text \<open>
  The parsed response body, a GuidanceResult object. The component reads its fields
  defensively (\<open>result?.mode\<close>, \<open>guidesUsed?.length\<close>, \<open>data.hazard || 'unknown'\<close>),
  so every field may be absent (\<open>None\<close>). The field \<open>mode\<close> of the body is \<open>mode_field\<close>
  here, apart from the component's own state variable \<open>mode\<close>.
\<close>

record guidance_result =
  hazard :: "jsstring option"
  hazardSource :: "jsstring option"
  guidesUsed :: "jsstring list option"
  canDeepDive :: "bool option"
  guidance :: "jsstring option"
  mode_field :: "jsstring option"

text \<open>A thrown value as the catch block reads it: \<open>err?.message\<close>, possibly undefined.\<close>

datatype thrown = Thrown (message: "jsstring option")

text \<open>
  What \<open>fetch\<close> does from the handler's point of view: the promise rejects, or it
  resolves to a response with a status whose \<open>json()\<close> rejects or yields the body.
\<close>

record response =
  status :: nat
  json :: "thrown + guidance_result"

definition ok :: "response \<Rightarrow> bool" where
  "ok res \<longleftrightarrow> 200 \<le> status res \<and> status res \<le> 299"

datatype fetch_outcome = Rejected thrown | Responded response

text \<open>The argument of \<open>JSON.stringify\<close>: an object with string-valued properties.\<close>

datatype json_doc = JSON_stringify "(string \<times> jsstring) list"

record request =
  url :: jsstring
  http_method :: jsstring
  headers :: "(string \<times> string) list"
  body :: json_doc

text \<open>
  The calls a handler makes on its collaborators, in program order. A console call carries
  the strings it prints (for \<open>console.log('Calling API:', url, { mode })\<close> the message, the
  URL and the mode) and, for \<open>console.error\<close>, the thrown value.
\<close>

datatype call =
    PreventDefault
  | TrackEvent track_args
  | TrackPageView jsvalue
  | Fetch request
  | ConsoleLog "jsstring list"
  | ConsoleError "jsstring list" thrown
  | WindowOpen jsstring jsstring jsstring

text \<open>The five \<open>useState\<close> variables of the component.\<close>

record app_state =
  situationText :: jsstring
  mode :: jsstring
  loading :: bool
  result :: "guidance_result option"
  error :: jsstring

definition initial_state :: app_state where
  "initial_state =
     \<lparr>situationText = [], mode = js ''normal'', loading = False, result = None, error = []\<rparr>"

text \<open>\<open>x || d\<close> on a string that may be undefined: the empty string is falsy.\<close>

definition or_else :: "jsstring option \<Rightarrow> jsstring \<Rightarrow> jsstring" where
  "or_else x d = (case x of None \<Rightarrow> d | Some s \<Rightarrow> if s = [] then d else s)"

definition event :: "string \<Rightarrow> string \<Rightarrow> jsstring \<Rightarrow> track_args" where
  "event a c l = \<lparr>action = Str (js a), category = Str (js c), label = Str l, value = Undefined\<rparr>"

definition endpoint :: "jsstring \<Rightarrow> jsstring" where
  "endpoint m = (if m = js ''deep'' then js ''/api/help/deep'' else js ''/api/help'')"

definition post :: "jsstring \<Rightarrow> jsstring \<Rightarrow> request" where
  "post u trimmed =
     \<lparr>url = u, http_method = js ''POST'',
      headers = [(''Content-Type'', ''application/json'')],
      body = JSON_stringify [(''situationText'', trimmed)]\<rparr>"

text \<open>
  The \<open>try\<close> block up to \<open>data\<close>: a rejected fetch, a response that is not ok
  (\<open>throw new Error(`API error: ${res.status}`)\<close>) and a rejected \<open>res.json()\<close> all
  reach the catch block.
\<close>

definition await_data :: "fetch_outcome \<Rightarrow> thrown + guidance_result" where
  "await_data net =
     (case net of
        Rejected err \<Rightarrow> Inl err
      | Responded res \<Rightarrow>
          if \<not> ok res then Inl (Thrown (Some (js ''API error: '' @ to_decimal (status res))))
          else json res)"

section \<open>App.js, first revision\<close>

definition API_BASE1 :: jsstring where
  "API_BASE1 = js ''http://127.0.0.1:5000''"

definition handleSubmit1 :: "fetch_outcome \<Rightarrow> app_state \<Rightarrow> app_state \<times> call list" where
  "handleSubmit1 net st =
     (let st1 = st\<lparr>error := [], result := None\<rparr>;
          trimmed = trim (situationText st)
      in if trimmed = [] then
           (st1\<lparr>error := js ''Please describe your situation.''\<rparr>, [PreventDefault])
         else
           let st2 = st1\<lparr>loading := True\<rparr>;
               sent = [PreventDefault,
                       TrackEvent (event ''submit_help_request'' ''help'' (mode st)),
                       Fetch (post (API_BASE1 @ endpoint (mode st)) trimmed)]
           in case await_data net of
                Inr data \<Rightarrow>
                  (st2\<lparr>result := Some data, loading := False\<rparr>,
                   sent @ [TrackEvent (event ''help_request_success'' ''help''
                                        (or_else (hazard data) (js ''unknown'')))])
              | Inl err \<Rightarrow>
                  (st2\<lparr>error := js ''Something went wrong. Please try again.'',
                        loading := False\<rparr>,
                   sent @ [ConsoleError [] err,
                           TrackEvent (event ''help_request_error'' ''help''
                                        (or_else (message err) (js ''unknown_error'')))]))"

definition handleReset1 :: "app_state \<Rightarrow> app_state \<times> call list" where
  "handleReset1 st =
     (st\<lparr>situationText := [], result := None, error := []\<rparr>,
      [TrackEvent (event ''help_form_reset'' ''help'' (js ''reset''))])"

text \<open>
  What a render gives: the element displayed, or an exception thrown while the component
  function runs, after which nothing of it is displayed.
\<close>

datatype 'a rendered = Displayed 'a | RenderThrows

text \<open>
  The Guides pill of the result card, rendered inside \<open>result && (...)\<close>. The same card
  evaluates \<open>marked.parse(result.guidance)\<close>, which throws when the guidance is absent
  (\<open>marked(): input parameter is undefined or null\<close>): then the render fails.
\<close>

definition guides_pill1 :: "app_state \<Rightarrow> jsstring option rendered" where
  "guides_pill1 st =
     (case result st of
        None \<Rightarrow> Displayed None
      | Some r \<Rightarrow>
          (case guidance r of
             None \<Rightarrow> RenderThrows
           | Some g \<Rightarrow>
               Displayed
                 (case guidesUsed r of
                    None \<Rightarrow> None
                  | Some gs \<Rightarrow>
                      if length gs > 0 then Some (js ''Guides: '' @ join (js '', '') gs)
                      else None)))"

section \<open>App.js, second revision\<close>

text \<open>\<open>s.replace(/\/$/, '')\<close>: one \<open>/\<close> at the very end of the string is removed.\<close>

definition strip_trailing_slash :: "jsstring \<Rightarrow> jsstring" where
  "strip_trailing_slash s = (if s \<noteq> [] \<and> last s = of_char CHR ''/'' then butlast s else s)"

text \<open>The parameter is \<open>process.env.REACT_APP_API_URL\<close>, \<open>None\<close> when it is not set.\<close>

definition API_BASE2 :: "jsstring option \<Rightarrow> jsstring" where
  "API_BASE2 env = strip_trailing_slash (or_else env (js ''http://127.0.0.1:5000''))"

definition KO_FI_URL :: jsstring where
  "KO_FI_URL = js ''https://ko-fi.com/nikharbhavsar''"

definition handleDonateClick :: "app_state \<Rightarrow> app_state \<times> call list" where
  "handleDonateClick st =
     (st, [TrackEvent (event ''click_donate'' ''support'' (js ''kofi_button'')),
           WindowOpen KO_FI_URL (js ''_blank'') (js ''noopener,noreferrer'')])"

definition handleSubmit2 ::
  "jsstring option \<Rightarrow> fetch_outcome \<Rightarrow> app_state \<Rightarrow> app_state \<times> call list" where
  "handleSubmit2 env net st =
     (let st1 = st\<lparr>error := [], result := None\<rparr>;
          trimmed = trim (situationText st)
      in if trimmed = [] then
           (st1\<lparr>error := js ''Please describe your situation.''\<rparr>, [PreventDefault])
         else
           let st2 = st1\<lparr>loading := True\<rparr>;
               u = API_BASE2 env @ endpoint (mode st);
               sent = [PreventDefault,
                       ConsoleLog [js ''Calling API:'', u, mode st],
                       TrackEvent (event ''submit_help_request'' ''help'' (mode st)),
                       Fetch (post u trimmed)]
           in case await_data net of
                Inr data \<Rightarrow>
                  (st2\<lparr>result := Some data, loading := False\<rparr>,
                   sent @ [TrackEvent (event ''help_request_success'' ''help''
                                        (or_else (hazard data) (js ''unknown'')))])
              | Inl err \<Rightarrow>
                  (st2\<lparr>error := js ''Something went wrong. Please try again.'',
                        loading := False\<rparr>,
                   sent @ [ConsoleError [js ''Request failed:''] err,
                           TrackEvent (event ''help_request_error'' ''help''
                                        (or_else (message err) (js ''unknown_error'')))]))"

definition handleReset2 :: "app_state \<Rightarrow> app_state \<times> call list" where
  "handleReset2 st =
     (st\<lparr>situationText := [], result := None, error := [], mode := js ''normal''\<rparr>,
      [TrackEvent (event ''help_form_reset'' ''help'' (js ''reset''))])"

text \<open>
  The Guides pill of the second revision, whose card evaluates
  \<open>marked.parse(result.guidance || '')\<close>: an absent guidance does not throw.
\<close>

definition guides_pill2 :: "app_state \<Rightarrow> jsstring option" where
  "guides_pill2 st =
     (case result st of
        None \<Rightarrow> None
      | Some r \<Rightarrow>
          (case guidesUsed r of
             None \<Rightarrow> None
           | Some gs \<Rightarrow>
               if length gs > 0 \<and> mode st = js ''deep''
               then Some (js ''Guides: '' @ join (js '', '') gs) else None))"

section \<open>Observations on a trace\<close>

fun fetches :: "call list \<Rightarrow> request list" where
  "fetches [] = []"
| "fetches (Fetch r # cs) = r # fetches cs"
| "fetches (_ # cs) = fetches cs"

fun tracked :: "call list \<Rightarrow> track_args list" where
  "tracked [] = []"
| "tracked (TrackEvent a # cs) = a # tracked cs"
| "tracked (_ # cs) = tracked cs"

section \<open>Executions of the component\<close>

text \<open>
  The user's actions, as the JSX wires them: \<open>onChange\<close> of the textarea
  (\<open>setSituationText(e.target.value)\<close>), \<open>onChange\<close> of the checkbox
  (\<open>setMode(e.target.checked ? 'deep' : 'normal')\<close>), \<open>onSubmit\<close> of the form with what the
  network then does, \<open>onClick\<close> of Reset and, in the second revision, of the Ko-fi button
  (the first revision has no such button: there the action changes nothing).
  A handler runs to its end before the next action: the handler reads \<open>situationText\<close> and
  \<open>mode\<close> from the render it was created in, and while it waits the checkbox and both
  form buttons are disabled; the textarea stays editable, but the handler does not read it
  again.
\<close>

datatype ui_event =
    Change jsstring
  | Check bool
  | Submit fetch_outcome
  | Reset
  | Donate

fun step1 :: "ui_event \<Rightarrow> app_state \<Rightarrow> app_state \<times> call list" where
  "step1 (Change s) st = (st\<lparr>situationText := s\<rparr>, [])"
| "step1 (Check b) st = (st\<lparr>mode := (if b then js ''deep'' else js ''normal'')\<rparr>, [])"
| "step1 (Submit net) st = handleSubmit1 net st"
| "step1 Reset st = handleReset1 st"
| "step1 Donate st = (st, [])"

fun step2 :: "jsstring option \<Rightarrow> ui_event \<Rightarrow> app_state \<Rightarrow> app_state \<times> call list" where
  "step2 env (Change s) st = (st\<lparr>situationText := s\<rparr>, [])"
| "step2 env (Check b) st = (st\<lparr>mode := (if b then js ''deep'' else js ''normal'')\<rparr>, [])"
| "step2 env (Submit net) st = handleSubmit2 env net st"
| "step2 env Reset st = handleReset2 st"
| "step2 env Donate st = handleDonateClick st"

fun run :: "(ui_event \<Rightarrow> app_state \<Rightarrow> app_state \<times> call list) \<Rightarrow> ui_event list \<Rightarrow>
            app_state \<Rightarrow> app_state \<times> call list" where
  "run step [] st = (st, [])"
| "run step (e # es) st =
     (case step e st of (st', cs) \<Rightarrow>
        (case run step es st' of (st'', cs') \<Rightarrow> (st'', cs @ cs')))"

text \<open>The effect \<open>useEffect(() => trackPageView('/'), [])\<close> runs once, on mount.\<close>

definition execution1 :: "ui_event list \<Rightarrow> call list" where
  "execution1 es = TrackPageView (Str (js ''/'')) # snd (run step1 es initial_state)"

definition execution2 :: "jsstring option \<Rightarrow> ui_event list \<Rightarrow> call list" where
  "execution2 env es = TrackPageView (Str (js ''/'')) # snd (run (step2 env) es initial_state)"

text \<open>
  What reaches the analytics service: the \<open>gtag\<close> calls that the helper calls of a trace
  issue in a given environment. The handlers always pass an object literal. A handler's
  trace is the one it has when its helper calls return, as they do when \<open>window.gtag\<close> is
  absent or is the function of the Google Analytics snippet.
\<close>

fun analytics :: "window option \<Rightarrow> call list \<Rightarrow> gtag_call list" where
  "analytics w [] = []"
| "analytics w (TrackEvent a # cs) = fst (trackEvent w (Some a)) @ analytics w cs"
| "analytics w (TrackPageView p # cs) = fst (trackPageView w p) @ analytics w cs"
| "analytics w (_ # cs) = analytics w cs"

text \<open>
  An execution with every typed text replaced by a placeholder that keeps only whether the
  text trims to the empty string.
\<close>

fun blind :: "ui_event \<Rightarrow> ui_event" where
  "blind (Change s) = Change (if trim s = [] then [] else js ''x'')"
| "blind e = e"

text \<open>The label a submission's outcome gives rise to: the hazard of the body, or the error's message.\<close>

definition outcome_label :: "fetch_outcome \<Rightarrow> jsstring" where
  "outcome_label net =
     (case await_data net of
        Inr data \<Rightarrow> or_else (hazard data) (js ''unknown'')
      | Inl err \<Rightarrow> or_else (message err) (js ''unknown_error''))"

fun outcome_labels :: "ui_event list \<Rightarrow> jsstring set" where
  "outcome_labels [] = {}"
| "outcome_labels (Submit net # es) = insert (outcome_label net) (outcome_labels es)"
| "outcome_labels (_ # es) = outcome_labels es"

section \<open>The hazard resolution and guidance pipeline\<close>

text \<open>
  The backend (\<open>backend/app.py\<close>, \<open>gemini_client.py\<close>, \<open>guides_map.json\<close>) is not among
  the sources at hand; only its README and its client are. Each definition of this section
  is modelled from the specification, section by section. The keyword list, the rule table,
  the taxonomy and the two fixed texts are configuration (specification, 9), so they are
  parameters; the external capabilities are stubs that map a request to its reply.
\<close>

text \<open>Modelled from the spec: the GuideEntry record of the data model (3).\<close>

record GuideEntry =
  guideKey :: string
  guide_hazard :: string
  externalFileHandle :: "string option"
  handleExpiry :: "nat option"

text \<open>Modelled from the spec: the source tag of a HazardLabel (3), \<open>rules\<close> or \<open>ai\<close>.\<close>

datatype hazard_source = Rules | AI

text \<open>Modelled from the spec: the request mode, \<open>normal\<close> or \<open>deep\<close> (3, 4.6).\<close>

datatype request_mode = Normal | Deep

text \<open>
  Modelled from the spec: the GuidanceResult record (3). Its fields carry the prefix
  \<open>res\<close> here; the unprefixed names are those of the body the frontend reads.
\<close>

record GuidanceResult =
  res_hazard :: string
  res_hazardSource :: hazard_source
  res_guidesUsed :: "string list"
  res_canDeepDive :: bool
  res_guidance :: string
  res_mode :: request_mode

text \<open>
  Modelled from the spec: the configuration data of the pipeline: the medical-emergency
  indicators (4.1), the ordered rules, each a hazard with the predicate its trigger
  pattern set decides on a text (4.2), the closed hazard taxonomy (4.3), the fixed
  guidance of the medical response (4.1) and the hand-authored generic safety steps (4.5).
\<close>

record config =
  medical_keywords :: "string list"
  rules :: "(string \<times> (string \<Rightarrow> bool)) list"
  taxonomy :: "string list"
  medical_guidance :: string
  generic_steps :: string

text \<open>
  Modelled from the spec: what the external classification capability answers (4.3, 6):
  a label, possibly empty or outside the taxonomy, a malformed answer, a timeout or a
  transport failure.
\<close>

datatype classifier_reply = Label string | Malformed | Timeout | TransportFailure

text \<open>
  Modelled from the spec: the two external capabilities (6), stubbed. The classification
  capability maps the text to its reply; the reasoning capability maps the text, the
  hazard and zero or more document handles to a guidance text, or fails (\<open>None\<close>).
\<close>

record external =
  classification :: "string \<Rightarrow> classifier_reply"
  reasoning :: "string \<Rightarrow> string \<Rightarrow> string list \<Rightarrow> string option"

text \<open>
  Modelled from the spec: the invocations a request makes, in order: a run of the Rule
  Classifier, or a call of one of the two external capabilities with its arguments.
\<close>

datatype invocation =
    RuleClassification string
  | Classification string
  | Reasoning string string "string list"

text \<open>Modelled from the spec: case-insensitive comparison (4.1), on ASCII letters.\<close>

definition lower_char :: "char \<Rightarrow> char" where
  "lower_char c =
     (let n = (of_char c :: nat) in if 65 \<le> n \<and> n \<le> 90 then char_of (n + 32) else c)"

definition lower :: "string \<Rightarrow> string" where
  "lower s = map lower_char s"

text \<open>Modelled from the spec: substring match (4.1).\<close>

fun starts_with :: "string \<Rightarrow> string \<Rightarrow> bool" where
  "starts_with [] ys = True"
| "starts_with (x # xs) [] = False"
| "starts_with (x # xs) (y # ys) = (x = y \<and> starts_with xs ys)"

fun contains :: "string \<Rightarrow> string \<Rightarrow> bool" where
  "contains p [] = (p = [])"
| "contains p (y # ys) = (starts_with p (y # ys) \<or> contains p ys)"

text \<open>
  Modelled from the spec: the Medical Short-Circuit (4.1): a case-insensitive substring
  match against a fixed list; any match wins.
\<close>

definition medical_short_circuit :: "string list \<Rightarrow> string \<Rightarrow> bool" where
  "medical_short_circuit keywords text = list_ex (\<lambda>k. contains (lower k) (lower text)) keywords"

text \<open>
  Modelled from the spec: the Rule Classifier (4.2): the first rule whose pattern set
  matches wins, in the order of definition; \<open>None\<close> is the sentinel "unknown".
\<close>

fun rule_classifier :: "(string \<times> (string \<Rightarrow> bool)) list \<Rightarrow> string \<Rightarrow> string option" where
  "rule_classifier [] text = None"
| "rule_classifier ((h, matches) # rs) text =
     (if matches text then Some h else rule_classifier rs text)"

text \<open>
  Modelled from the spec: validation of the classifier's answer (4.3): a label outside the
  taxonomy, an empty or malformed answer, a timeout and a transport failure collapse to
  \<open>unknown_general\<close>; \<open>medical_emergency\<close> is never produced by the AI Classifier (3).
\<close>

definition validate :: "string list \<Rightarrow> classifier_reply \<Rightarrow> string" where
  "validate labels reply =
     (case reply of
        Label l \<Rightarrow>
          if l \<noteq> [] \<and> l \<in> set labels \<and> l \<noteq> ''medical_emergency'' then l
          else ''unknown_general''
      | _ \<Rightarrow> ''unknown_general'')"

text \<open>Modelled from the spec: the AI Classifier (4.3): one external call, then validation.\<close>

definition ai_classifier :: "config \<Rightarrow> external \<Rightarrow> string \<Rightarrow> string \<times> invocation list" where
  "ai_classifier cfg ext text =
     (validate (taxonomy cfg) (classification ext text), [Classification text])"

text \<open>
  Modelled from the spec: the Classify state of the orchestrator (4.6): rules, then the AI
  fallback, which is invoked only when the Rule Classifier returns "unknown" (4.3).
\<close>

definition classify ::
  "config \<Rightarrow> external \<Rightarrow> string \<Rightarrow> (string \<times> hazard_source) \<times> invocation list" where
  "classify cfg ext text =
     (case rule_classifier (rules cfg) text of
        Some h \<Rightarrow> ((h, Rules), [RuleClassification text])
      | None \<Rightarrow>
          (case ai_classifier cfg ext text of
             (h, calls) \<Rightarrow> ((h, AI), RuleClassification text # calls)))"

text \<open>
  Modelled from the spec: the Guide Resolver (4.4): the guide keys of the hazard, in the
  order of the catalog.
\<close>

definition guide_resolver :: "GuideEntry list \<Rightarrow> string \<Rightarrow> string list" where
  "guide_resolver catalog h = map guideKey (filter (\<lambda>e. guide_hazard e = h) catalog)"

text \<open>
  Modelled from the spec: an answer of the reasoning capability that can be used: the
  call did not fail and the text is not empty (7: never an empty guidance field).
\<close>

definition usable :: "string option \<Rightarrow> string option" where
  "usable reply = (case reply of None \<Rightarrow> None | Some g \<Rightarrow> if g = [] then None else Some g)"

text \<open>
  Modelled from the spec: short-form synthesis (4.5): the text and the hazard go to the
  reasoning capability with no document attached; when that fails, the hand-authored
  generic safety steps are returned.
\<close>

definition short_form :: "config \<Rightarrow> external \<Rightarrow> string \<Rightarrow> string \<Rightarrow> string \<times> invocation list" where
  "short_form cfg ext text h =
     (case usable (reasoning ext text h []) of
        Some g \<Rightarrow> (g, [Reasoning text h []])
      | None \<Rightarrow> (generic_steps cfg, [Reasoning text h []]))"

text \<open>
  Modelled from the spec: the handles that can be attached (4.5): those of the resolved
  guides whose handle is present and not expired at the time of the request.
\<close>

definition live_handle :: "nat \<Rightarrow> GuideEntry \<Rightarrow> string option" where
  "live_handle now e =
     (case externalFileHandle e of
        None \<Rightarrow> None
      | Some f \<Rightarrow>
          (case handleExpiry e of
             None \<Rightarrow> Some f
           | Some t \<Rightarrow> if now < t then Some f else None))"

text \<open>Modelled from the spec: the live handles of the guides of a hazard, in catalog order (4.5).\<close>

definition live_handles :: "nat \<Rightarrow> GuideEntry list \<Rightarrow> string \<Rightarrow> string list" where
  "live_handles now catalog h =
     List.map_filter (live_handle now) (filter (\<lambda>e. guide_hazard e = h) catalog)"

text \<open>
  Modelled from the spec: document-informed synthesis with its fallback policy (4.5),
  evaluated in order: (a) no guide resolved, (b) no handle present and unexpired,
  (c) the external call fails; each falls back to short-form.
\<close>

definition document_informed ::
  "config \<Rightarrow> external \<Rightarrow> nat \<Rightarrow> GuideEntry list \<Rightarrow> string \<Rightarrow> string \<Rightarrow> string \<times> invocation list" where
  "document_informed cfg ext now catalog text h =
     (if guide_resolver catalog h = [] then short_form cfg ext text h
      else if live_handles now catalog h = [] then short_form cfg ext text h
      else
        (case usable (reasoning ext text h (live_handles now catalog h)) of
           Some g \<Rightarrow> (g, [Reasoning text h (live_handles now catalog h)])
         | None \<Rightarrow>
             (case short_form cfg ext text h of
                (g, calls) \<Rightarrow> (g, Reasoning text h (live_handles now catalog h) # calls))))"

text \<open>
  Modelled from the spec: the Pipeline Orchestrator (4.6), entry behaviours Normal and
  Deep: medical check, then classify, resolve and synthesize. The medical response is
  fixed but for the mode of the endpoint (6).
\<close>

definition pipeline ::
  "config \<Rightarrow> external \<Rightarrow> nat \<Rightarrow> GuideEntry list \<Rightarrow> request_mode \<Rightarrow> string \<Rightarrow>
   GuidanceResult \<times> invocation list" where
  "pipeline cfg ext now catalog m text =
     (if medical_short_circuit (medical_keywords cfg) text then
        (\<lparr>res_hazard = ''medical_emergency'', res_hazardSource = Rules, res_guidesUsed = [],
          res_canDeepDive = False, res_guidance = medical_guidance cfg, res_mode = m\<rparr>, [])
      else
        (case classify cfg ext text of
           ((h, src), calls) \<Rightarrow>
             (case (case m of
                      Normal \<Rightarrow> short_form cfg ext text h
                    | Deep \<Rightarrow> document_informed cfg ext now catalog text h) of
                (g, calls') \<Rightarrow>
                  (\<lparr>res_hazard = h, res_hazardSource = src,
                    res_guidesUsed = guide_resolver catalog h,
                    res_canDeepDive = (guide_resolver catalog h \<noteq> []),
                    res_guidance = g, res_mode = m\<rparr>,
                   calls @ calls'))))"

text \<open>Modelled from the spec: the client input error of the endpoints (6, 7), a 400.\<close>

datatype api_error = BadRequest

text \<open>
  Modelled from the spec: the endpoint \<open>/api/help\<close> (6): 400 if \<open>situationText\<close> is empty
  or missing, else the pipeline in normal mode.
\<close>

definition api_help ::
  "config \<Rightarrow> external \<Rightarrow> nat \<Rightarrow> GuideEntry list \<Rightarrow> string option \<Rightarrow>
   api_error + GuidanceResult \<times> invocation list" where
  "api_help cfg ext now catalog situation =
     (case situation of
        None \<Rightarrow> Inl BadRequest
      | Some text \<Rightarrow>
          if text = [] then Inl BadRequest else Inr (pipeline cfg ext now catalog Normal text))"

text \<open>
  Modelled from the spec: the endpoint \<open>/api/help/deep\<close> (6): 400 if \<open>situationText\<close> is
  missing, else the pipeline in deep mode.
\<close>

definition api_help_deep ::
  "config \<Rightarrow> external \<Rightarrow> nat \<Rightarrow> GuideEntry list \<Rightarrow> string option \<Rightarrow>
   api_error + GuidanceResult \<times> invocation list" where
  "api_help_deep cfg ext now catalog situation =
     (case situation of
        None \<Rightarrow> Inl BadRequest
      | Some text \<Rightarrow> Inr (pipeline cfg ext now catalog Deep text))"

text \<open>Modelled from the spec: the invocations of the AI Classifier among those of a request (8).\<close>

fun ai_calls :: "invocation list \<Rightarrow> string list" where
  "ai_calls [] = []"
| "ai_calls (Classification t # cs) = t # ai_calls cs"
| "ai_calls (_ # cs) = ai_calls cs"

text \<open>
  Modelled from the spec: an answer of the external classifier that is not a usable label
  (4.3): outside the taxonomy, empty, malformed, a timeout or a transport failure.
\<close>

definition degraded :: "string list \<Rightarrow> classifier_reply \<Rightarrow> bool" where
  "degraded labels reply =
     (case reply of Label l \<Rightarrow> l = [] \<or> l \<notin> set labels | _ \<Rightarrow> True)"

text \<open>
  Modelled from the spec: configuration data for the worked examples. The indicators and
  hazards are those the specification names (3, 4.1), the guide keys those of the README's
  sample responses; the rules and the two fixed texts are examples.
\<close>

definition example_config :: config where
  "example_config =
     \<lparr>medical_keywords = [''unconscious'', ''severe bleeding'', ''chest pain'', ''choking''],
      rules = [(''flood'', \<lambda>t. contains ''flood'' (lower t)),
               (''wildfire'', \<lambda>t. contains ''wildfire'' (lower t)),
               (''gas_leak'', \<lambda>t. contains ''smell gas'' (lower t))],
      taxonomy = [''flood'', ''wildfire'', ''gas_leak'', ''vehicle_breakdown'',
                  ''medical_emergency'', ''unknown_general''],
      medical_guidance = ''Call emergency services (911 or your local emergency number) now.'',
      generic_steps = ''1. Move to a safe place. 2. Call your local emergency number.''\<rparr>"

definition example_catalog :: "GuideEntry list" where
  "example_catalog =
     [\<lparr>guideKey = ''flood_preparedness'', guide_hazard = ''flood'',
       externalFileHandle = Some ''files/flood-1'', handleExpiry = Some 100\<rparr>,
      \<lparr>guideKey = ''wildfire_preparedness'', guide_hazard = ''wildfire'',
       externalFileHandle = None, handleExpiry = None\<rparr>,
      \<lparr>guideKey = ''fema_are_you_ready'', guide_hazard = ''flood'',
       externalFileHandle = None, handleExpiry = None\<rparr>,
      \<lparr>guideKey = ''wildfire_toolkit'', guide_hazard = ''wildfire'',
       externalFileHandle = Some ''files/toolkit-7'', handleExpiry = Some 40\<rparr>]"

text \<open>
  Modelled from the spec: stubbed external capabilities for the worked examples. The first
  classifier answers within the taxonomy for a car and outside it otherwise; its reasoning
  capability answers without documents and fails with them. The second is unreachable.
\<close>

definition example_external :: external where
  "example_external =
     \<lparr>classification =
        (\<lambda>t. if contains ''car'' (lower t) then Label ''vehicle_breakdown'' else Label ''volcano''),
      reasoning = (\<lambda>t h fs. if fs = [] then Some ''1. Stay calm.'' else None)\<rparr>"

definition unreachable_external :: external where
  "unreachable_external =
     \<lparr>classification = (\<lambda>t. Timeout), reasoning = (\<lambda>t h fs. None)\<rparr>"

section \<open>Relations and predicates used in the statements\<close>

text \<open>Two states that differ at most in the typed text, and agree on whether it trims to nothing.\<close>

definition alike :: "app_state \<Rightarrow> app_state \<Rightarrow> bool" where
  "alike s t \<longleftrightarrow>
     mode s = mode t \<and> loading s = loading t \<and> result s = result t \<and> error s = error t \<and>
     (trim (situationText s) = []) = (trim (situationText t) = [])"

text \<open>Two traces with the same calls of the analytics helpers, hence the same \<open>gtag\<close> calls.\<close>

definition same_tracking :: "call list \<Rightarrow> call list \<Rightarrow> bool" where
  "same_tracking cs ds \<longleftrightarrow> tracked cs = tracked ds \<and> (\<forall>w. analytics w cs = analytics w ds)"

text \<open>
  An argument object of \<open>trackEvent\<close> built from the literals of the source, with a label
  that is a literal, one of the two modes, or one of the given outcome labels.
\<close>

definition drawn_from :: "jsstring set \<Rightarrow> track_args \<Rightarrow> bool" where
  "drawn_from labels a \<longleftrightarrow>
     action a \<in> Str ` js ` {''submit_help_request'', ''help_request_success'',
                            ''help_request_error'', ''help_form_reset'', ''click_donate''} \<and>
     category a \<in> Str ` js ` {''help'', ''support''} \<and>
     label a \<in> Str ` ({js ''normal'', js ''deep'', js ''reset'', js ''kofi_button''} \<union> labels) \<and>
     value a = Undefined"

text \<open>The state variable \<open>mode\<close> only ever holds one of its two literals.\<close>

definition mode_ok :: "app_state \<Rightarrow> bool" where
  "mode_ok st \<longleftrightarrow> mode st = js ''normal'' \<or> mode st = js ''deep''"

section \<open>Properties of the frontend\<close>

subsection \<open>Traces\<close>


lemma fetches_append [simp]: "fetches (xs @ ys) = fetches xs @ fetches ys"
  by (induction xs rule: fetches.induct) simp_all

lemma tracked_append [simp]: "tracked (xs @ ys) = tracked xs @ tracked ys"
  by (induction xs rule: tracked.induct) simp_all

lemma analytics_append [simp]: "analytics w (xs @ ys) = analytics w xs @ analytics w ys"
  by (induction w xs rule: analytics.induct) simp_all

lemma same_tracking_append:
  "same_tracking cs ds \<Longrightarrow> same_tracking cs' ds' \<Longrightarrow> same_tracking (cs @ cs') (ds @ ds')"
  by (simp add: same_tracking_def)

lemma same_tracking_refl: "same_tracking cs cs"
  by (simp add: same_tracking_def)

lemma trim_placeholder: "(trim (if trim s = [] then [] else js ''x'') = []) = (trim s = [])"
  by (simp add: trim_def js_def is_white_space_def)

lemma handleSubmit1_alike:
  assumes "alike s t"
  shows "alike (fst (handleSubmit1 net s)) (fst (handleSubmit1 net t)) \<and>
         same_tracking (snd (handleSubmit1 net s)) (snd (handleSubmit1 net t))"
  using assms
  by (auto simp: alike_def same_tracking_def handleSubmit1_def Let_def trim_def split: sum.split)

lemma handleSubmit2_alike:
  assumes "alike s t"
  shows "alike (fst (handleSubmit2 env net s)) (fst (handleSubmit2 env net t)) \<and>
         same_tracking (snd (handleSubmit2 env net s)) (snd (handleSubmit2 env net t))"
  using assms
  by (auto simp: alike_def same_tracking_def handleSubmit2_def Let_def trim_def split: sum.split)

lemma step1_alike:
  assumes "alike s t"
  shows "alike (fst (step1 (blind e) s)) (fst (step1 e t)) \<and>
         same_tracking (snd (step1 (blind e) s)) (snd (step1 e t))"
proof (cases e)
  case (Change x)
  with assms show ?thesis
    using trim_placeholder [of x] by (simp add: alike_def same_tracking_def)
next
  case (Submit net)
  with assms show ?thesis using handleSubmit1_alike [of s t net] by simp
qed (use assms in \<open>auto simp: alike_def same_tracking_def handleReset1_def trim_def\<close>)

lemma step2_alike:
  assumes "alike s t"
  shows "alike (fst (step2 env (blind e) s)) (fst (step2 env e t)) \<and>
         same_tracking (snd (step2 env (blind e) s)) (snd (step2 env e t))"
proof (cases e)
  case (Change x)
  with assms show ?thesis
    using trim_placeholder [of x] by (simp add: alike_def same_tracking_def)
next
  case (Submit net)
  with assms show ?thesis using handleSubmit2_alike [of s t env net] by simp
qed (use assms in
      \<open>auto simp: alike_def same_tracking_def handleReset2_def handleDonateClick_def trim_def\<close>)

lemma run_alike:
  assumes "\<And>e s t. alike s t \<Longrightarrow>
             alike (fst (step (blind e) s)) (fst (step e t)) \<and>
             same_tracking (snd (step (blind e) s)) (snd (step e t))"
    and "alike s t"
  shows "same_tracking (snd (run step (map blind es) s)) (snd (run step es t))"
  using assms(2)
proof (induction es arbitrary: s t)
  case Nil
  then show ?case by (simp add: same_tracking_def)
next
  case (Cons e es)
  from assms(1) [OF Cons.prems, of e]
  have a: "alike (fst (step (blind e) s)) (fst (step e t))"
    and b: "same_tracking (snd (step (blind e) s)) (snd (step e t))"
    by simp_all
  from same_tracking_append [OF b Cons.IH [OF a]] show ?case
    by (simp add: split_beta)
qed

lemma alike_refl: "alike s s"
  by (simp add: alike_def)

lemma blind_execution1: "same_tracking (execution1 (map blind es)) (execution1 es)"
  using run_alike [of step1 initial_state initial_state es, OF step1_alike alike_refl]
  by (simp add: execution1_def same_tracking_def)

lemma blind_execution2: "same_tracking (execution2 env (map blind es)) (execution2 env es)"
  using run_alike [of "step2 env" initial_state initial_state es, OF step2_alike alike_refl]
  by (simp add: execution2_def same_tracking_def)

lemma drawn_from_mono: "drawn_from A a \<Longrightarrow> A \<subseteq> B \<Longrightarrow> drawn_from B a"
  by (auto simp: drawn_from_def)

lemma handleSubmit1_drawn:
  assumes "mode_ok st"
  shows "mode_ok (fst (handleSubmit1 net st)) \<and>
         (\<forall>a \<in> set (tracked (snd (handleSubmit1 net st))). drawn_from {outcome_label net} a)"
  using assms
  by (auto simp: mode_ok_def handleSubmit1_def Let_def drawn_from_def event_def outcome_label_def
           split: sum.split)

lemma handleSubmit2_drawn:
  assumes "mode_ok st"
  shows "mode_ok (fst (handleSubmit2 env net st)) \<and>
         (\<forall>a \<in> set (tracked (snd (handleSubmit2 env net st))). drawn_from {outcome_label net} a)"
  using assms
  by (auto simp: mode_ok_def handleSubmit2_def Let_def drawn_from_def event_def outcome_label_def
           split: sum.split)

lemma step1_drawn:
  assumes "mode_ok st"
  shows "mode_ok (fst (step1 e st)) \<and>
         (\<forall>a \<in> set (tracked (snd (step1 e st))). drawn_from (outcome_labels [e]) a)"
proof (cases e)
  case (Submit net)
  with handleSubmit1_drawn [OF assms, of net] show ?thesis by simp
qed (use assms in \<open>auto simp: mode_ok_def handleReset1_def drawn_from_def event_def\<close>)

lemma step2_drawn:
  assumes "mode_ok st"
  shows "mode_ok (fst (step2 env e st)) \<and>
         (\<forall>a \<in> set (tracked (snd (step2 env e st))). drawn_from (outcome_labels [e]) a)"
proof (cases e)
  case (Submit net)
  with handleSubmit2_drawn [OF assms, of env net] show ?thesis by simp
qed (use assms in
      \<open>auto simp: mode_ok_def handleReset2_def handleDonateClick_def drawn_from_def event_def\<close>)

lemma outcome_labels_Cons: "outcome_labels (e # es) = outcome_labels [e] \<union> outcome_labels es"
  by (cases e) simp_all

lemma run_drawn:
  assumes "\<And>e st. mode_ok st \<Longrightarrow>
             mode_ok (fst (step e st)) \<and>
             (\<forall>a \<in> set (tracked (snd (step e st))). drawn_from (outcome_labels [e]) a)"
    and "mode_ok st"
  shows "\<forall>a \<in> set (tracked (snd (run step es st))). drawn_from (outcome_labels es) a"
  using assms(2)
proof (induction es arbitrary: st)
  case Nil
  then show ?case by simp
next
  case (Cons e es)
  from assms(1) [OF Cons.prems, of e]
  have a: "mode_ok (fst (step e st))"
    and b: "\<forall>a \<in> set (tracked (snd (step e st))). drawn_from (outcome_labels [e]) a"
    by simp_all
  have c: "\<forall>a \<in> set (tracked (snd (run step es (fst (step e st))))).
             drawn_from (outcome_labels es) a"
    by (rule Cons.IH [OF a])
  show ?case
  proof
    fix a assume "a \<in> set (tracked (snd (run step (e # es) st)))"
    then have "a \<in> set (tracked (snd (step e st))) \<or>
               a \<in> set (tracked (snd (run step es (fst (step e st)))))"
      by (simp add: split_beta)
    then show "drawn_from (outcome_labels (e # es)) a"
    proof
      assume "a \<in> set (tracked (snd (step e st)))"
      with b have "drawn_from (outcome_labels [e]) a" by blast
      then show ?thesis
        by (rule drawn_from_mono) (simp add: outcome_labels_Cons [of e es])
    next
      assume "a \<in> set (tracked (snd (run step es (fst (step e st)))))"
      with c have "drawn_from (outcome_labels es) a" by blast
      then show ?thesis
        by (rule drawn_from_mono) (auto simp: outcome_labels_Cons [of e es])
    qed
  qed
qed

lemma mode_ok_initial: "mode_ok initial_state"
  by (simp add: mode_ok_def initial_state_def)

lemma execution1_drawn: "\<forall>a \<in> set (tracked (execution1 es)). drawn_from (outcome_labels es) a"
  using run_drawn [of step1 initial_state es, OF step1_drawn mode_ok_initial]
  by (simp add: execution1_def)

lemma execution2_drawn: "\<forall>a \<in> set (tracked (execution2 env es)). drawn_from (outcome_labels es) a"
  using run_drawn [of "step2 env" initial_state es, OF step2_drawn mode_ok_initial]
  by (simp add: execution2_def)

subsection \<open>The component is idle between actions\<close>

lemma step1_idle: "\<not> loading st \<Longrightarrow> \<not> loading (fst (step1 e st))"
  by (cases e) (auto simp: handleSubmit1_def handleReset1_def Let_def split: sum.split)

lemma step2_idle: "\<not> loading st \<Longrightarrow> \<not> loading (fst (step2 env e st))"
  by (cases e)
     (auto simp: handleSubmit2_def handleReset2_def handleDonateClick_def Let_def split: sum.split)

lemma run_idle:
  assumes "\<And>e st. \<not> loading st \<Longrightarrow> \<not> loading (fst (step e st))" and "\<not> loading st"
  shows "\<not> loading (fst (run step es st))"
  using assms(2)
proof (induction es arbitrary: st)
  case Nil
  then show ?case by simp
next
  case (Cons e es)
  from Cons.IH [OF assms(1) [OF Cons.prems, of e]] show ?case
    by (simp add: split_beta)
qed

lemma initial_idle: "\<not> loading initial_state"
  by (simp add: initial_state_def)

subsection \<open>Joining guide keys\<close>

text \<open>The first revision's result card cannot be rendered for a result without guidance.\<close>

lemma guides_pill1_without_guidance:
  "result st = Some r \<Longrightarrow> guidance r = None \<Longrightarrow> guides_pill1 st = RenderThrows"
  by (simp add: guides_pill1_def)


lemma join_Cons: "join sep (x # xs) = x @ (if xs = [] then [] else sep @ join sep xs)"
  by (cases xs) simp_all

lemma takeWhile_join:
  assumes "c \<notin> set x"
  shows "takeWhile (\<lambda>d. d \<noteq> c) (join (c # sep) (x # xs)) = x"
proof -
  from assms have all: "\<forall>d \<in> set x. d \<noteq> c" by blast
  then have "takeWhile (\<lambda>d. d \<noteq> c) (x @ ys) = x @ takeWhile (\<lambda>d. d \<noteq> c) ys" for ys
    by (simp add: takeWhile_append2)
  with all show ?thesis by (cases xs) simp_all
qed

lemma join_inject:
  assumes "\<forall>k \<in> set gs. c \<notin> set k" and "\<forall>k \<in> set hs. c \<notin> set k"
    and "gs \<noteq> []" and "hs \<noteq> []"
    and "join (c # sep) gs = join (c # sep) hs"
  shows "gs = hs"
  using assms
proof (induction gs arbitrary: hs)
  case Nil
  then show ?case by simp
next
  case (Cons x xs)
  from Cons.prems(4) obtain y ys where hs: "hs = y # ys" by (cases hs) auto
  from Cons.prems(1) have cx: "c \<notin> set x" by simp
  from Cons.prems(2) hs have cy: "c \<notin> set y" by simp
  from Cons.prems(5) hs takeWhile_join [OF cx, of sep xs] takeWhile_join [OF cy, of sep ys]
  have xy: "x = y" by simp
  from Cons.prems(5) hs xy
  have rest: "(if xs = [] then [] else (c # sep) @ join (c # sep) xs) =
              (if ys = [] then [] else (c # sep) @ join (c # sep) ys)"
    by (simp only: join_Cons same_append_eq)
  show ?case
  proof (cases "xs = []")
    case True
    with rest have "ys = []" by (auto split: if_splits)
    with True xy hs show ?thesis by simp
  next
    case False
    with rest have ys: "ys \<noteq> []" by (auto split: if_splits)
    with False rest have "join (c # sep) xs = join (c # sep) ys" by simp
    with Cons.IH [of ys] Cons.prems(1,2) hs False ys have "xs = ys" by simp
    with xy hs show ?thesis by simp
  qed
qed

subsection \<open>The API base\<close>

lemma strip_trailing_slash_snoc:
  "strip_trailing_slash (b @ [c]) = (if c = of_char CHR ''/'' then b else b @ [c])"
  by (simp add: strip_trailing_slash_def)

lemma API_BASE2_unset: "API_BASE2 None = API_BASE1"
  by (simp add: API_BASE2_def API_BASE1_def or_else_def strip_trailing_slash_def js_def)

lemma API_BASE2_configured:
  "API_BASE2 (Some (b @ [c])) = (if c = of_char CHR ''/'' then b else b @ [c])"
  by (simp add: API_BASE2_def or_else_def strip_trailing_slash_snoc)

section \<open>Claims about the frontend\<close>

text \<open>
  C9, as the code has it. Called with an argument that is neither \<open>undefined\<close> nor
  \<open>null\<close>, \<open>trackEvent\<close> returns without calling \<open>gtag\<close> and without throwing when
  \<open>window\<close> is undefined or \<open>window.gtag\<close> is falsy; when \<open>window.gtag\<close> is a function it
  issues exactly one \<open>gtag('event', ...)\<close> call that forwards the action, category, label
  and value it was given, and ends as that call ends. \<open>trackPageView\<close> does the same for
  every path, forwarding it as \<open>page_path\<close>. The helpers are not total: \<open>trackEvent\<close>
  throws on an \<open>undefined\<close> or \<open>null\<close> argument in every environment, without a call, and
  both helpers throw, without a call, when \<open>window.gtag\<close> is truthy but not a function.
\<close>

theorem tracking_helpers_guarded:
  "trackEvent None (Some a) = ([], Returns) \<and>
   trackEvent (Some (Window Falsy)) (Some a) = ([], Returns) \<and>
   trackEvent (Some (Window (Function c))) (Some a) =
     ([Gtag (js ''event'') (action a)
         [(''event_category'', category a), (''event_label'', label a), (''value'', value a)]],
      c) \<and>
   trackEvent (Some (Window NotCallable)) (Some a) = ([], Throws) \<and>
   trackEvent w None = ([], Throws) \<and>
   trackPageView None p = ([], Returns) \<and>
   trackPageView (Some (Window Falsy)) p = ([], Returns) \<and>
   trackPageView (Some (Window (Function c))) p =
     ([Gtag (js ''event'') (Str (js ''page_view'')) [(''page_path'', p)]], c) \<and>
   trackPageView (Some (Window NotCallable)) p = ([], Throws)"
proof -
  have event: "trackEvent w None = ([], Throws)" for w
    by (simp add: trackEvent_def)
  have guarded: "trackEvent None (Some a) = ([], Returns)"
    "trackEvent (Some (Window Falsy)) (Some a) = ([], Returns)"
    "trackPageView None p = ([], Returns)"
    "trackPageView (Some (Window Falsy)) p = ([], Returns)"
    by (simp_all add: trackEvent_def trackPageView_def)
  have called: "trackEvent (Some (Window (Function c))) (Some a) =
      ([Gtag (js ''event'') (action a)
          [(''event_category'', category a), (''event_label'', label a), (''value'', value a)]],
       c)"
    "trackPageView (Some (Window (Function c))) p =
      ([Gtag (js ''event'') (Str (js ''page_view'')) [(''page_path'', p)]], c)"
    by (simp_all add: trackEvent_def trackPageView_def)
  have not_callable: "trackEvent (Some (Window NotCallable)) (Some a) = ([], Throws)"
    "trackPageView (Some (Window NotCallable)) p = ([], Throws)"
    by (simp_all add: trackEvent_def trackPageView_def)
  from event guarded called not_callable show ?thesis
    by (intro conjI)
qed

text \<open>
  C9 as stated fails: with no \<open>window\<close> at all, \<open>trackEvent(undefined)\<close> throws, the
  parameter being destructured before the guard; and with a \<open>window.gtag\<close> that is truthy
  but not a function, \<open>trackPageView('/')\<close> and \<open>trackEvent\<close> on an object throw instead of
  issuing a call.
\<close>

theorem tracking_helpers_can_throw:
  "trackEvent None None = ([], Throws) \<and>
   trackPageView (Some (Window NotCallable)) (Str (js ''/'')) = ([], Throws) \<and>
   trackEvent (Some (Window NotCallable))
     (Some \<lparr>action = Str (js ''help_form_reset''), category = Str (js ''help''),
            label = Str (js ''reset''), value = Undefined\<rparr>) = ([], Throws)"
  by (simp add: trackEvent_def trackPageView_def)

text \<open>
  C10. With \<open>REACT_APP_API_URL\<close> unset the two revisions compute the same request URL for
  every mode, namely \<open>http://127.0.0.1:5000/api/help\<close> and
  \<open>http://127.0.0.1:5000/api/help/deep\<close>; on a configured base URL the second revision
  removes exactly one trailing \<open>/\<close> before it appends the endpoint path, and leaves a base
  that does not end in \<open>/\<close> as it is.
\<close>

theorem request_urls_of_both_revisions:
  "API_BASE2 None @ endpoint m = API_BASE1 @ endpoint m \<and>
   API_BASE1 @ endpoint (js ''normal'') = js ''http://127.0.0.1:5000/api/help'' \<and>
   API_BASE1 @ endpoint (js ''deep'') = js ''http://127.0.0.1:5000/api/help/deep'' \<and>
   API_BASE2 None @ endpoint (js ''normal'') = js ''http://127.0.0.1:5000/api/help'' \<and>
   API_BASE2 None @ endpoint (js ''deep'') = js ''http://127.0.0.1:5000/api/help/deep'' \<and>
   API_BASE2 (Some (b @ js ''/'')) @ endpoint m = b @ endpoint m \<and>
   (c \<noteq> of_char CHR ''/'' \<longrightarrow> API_BASE2 (Some (b @ [c])) @ endpoint m = b @ [c] @ endpoint m)"
proof -
  have "API_BASE1 @ endpoint (js ''normal'') = js ''http://127.0.0.1:5000/api/help''"
    by (simp add: API_BASE1_def endpoint_def js_def)
  moreover have "API_BASE1 @ endpoint (js ''deep'') = js ''http://127.0.0.1:5000/api/help/deep''"
    by (simp add: API_BASE1_def endpoint_def js_def)
  moreover have "API_BASE2 (Some (b @ js ''/'')) = b"
    using API_BASE2_configured [of b "of_char CHR ''/''"] by (simp add: js_def)
  ultimately show ?thesis
    by (simp add: API_BASE2_unset API_BASE2_configured)
qed

theorem request_urls_of_both_revisions_witness:
  "API_BASE2 (Some (js ''https://api.example.org//'')) @ endpoint (js ''deep'')
     = js ''https://api.example.org//api/help/deep'' \<and>
   API_BASE2 (Some (js ''https://api.example.org'')) @ endpoint (js ''normal'')
     = js ''https://api.example.org/api/help''"
proof -
  have a: "js ''https://api.example.org//'' = js ''https://api.example.org/'' @ js ''/''"
    by (simp add: js_def)
  have b: "js ''https://api.example.org'' = js ''https://api.example.or'' @ [of_char CHR ''g'']"
    by (simp add: js_def)
  have g: "(of_char CHR ''g'' :: 16 word) \<noteq> of_char CHR ''/''"
    by simp
  from request_urls_of_both_revisions
         [of "js ''deep''" "js ''https://api.example.org/''" "of_char CHR ''g''"]
  have 1: "API_BASE2 (Some (js ''https://api.example.org//'')) @ endpoint (js ''deep'')
             = js ''https://api.example.org/'' @ endpoint (js ''deep'')"
    unfolding a by blast
  from request_urls_of_both_revisions
         [of "js ''normal''" "js ''https://api.example.or''" "of_char CHR ''g''"] g
  have 2: "API_BASE2 (Some (js ''https://api.example.org'')) @ endpoint (js ''normal'')
             = js ''https://api.example.or'' @ [of_char CHR ''g''] @ endpoint (js ''normal'')"
    unfolding b by blast
  show ?thesis
    unfolding 1 2 by (simp add: endpoint_def js_def)
qed

text \<open>
  C8. When the typed text trims to the empty string, the submit handler of either
  revision requests nothing from the network and calls \<open>trackEvent\<close> not at all (so no
  \<open>submit_help_request\<close> event); the error message becomes
  \<open>Please describe your situation.\<close>, the result is null, and \<open>loading\<close> is left as it
  was: false, as it is after every sequence of user actions (the submit button is disabled
  while a request is pending).
\<close>

theorem empty_submission_is_rejected_locally:
  assumes "trim (situationText st) = []"
  shows "fetches (snd (handleSubmit1 net st)) = [] \<and>
         tracked (snd (handleSubmit1 net st)) = [] \<and>
         analytics w (snd (handleSubmit1 net st)) = [] \<and>
         error (fst (handleSubmit1 net st)) = js ''Please describe your situation.'' \<and>
         result (fst (handleSubmit1 net st)) = None \<and>
         loading (fst (handleSubmit1 net st)) = loading st \<and>
         fetches (snd (handleSubmit2 env net st)) = [] \<and>
         tracked (snd (handleSubmit2 env net st)) = [] \<and>
         analytics w (snd (handleSubmit2 env net st)) = [] \<and>
         error (fst (handleSubmit2 env net st)) = js ''Please describe your situation.'' \<and>
         result (fst (handleSubmit2 env net st)) = None \<and>
         loading (fst (handleSubmit2 env net st)) = loading st \<and>
         \<not> loading (fst (run step1 es initial_state)) \<and>
         \<not> loading (fst (run (step2 env) es initial_state))"
  using assms run_idle [of step1 initial_state es, OF step1_idle initial_idle]
    run_idle [of "step2 env" initial_state es, OF step2_idle initial_idle]
  by (simp add: handleSubmit1_def handleSubmit2_def)

theorem empty_submission_is_rejected_locally_witness:
  "trim (js [CHR '' '', CHR 0x09, CHR 0x0A]) = [] \<and>
   fetches (snd (handleSubmit2 None (Rejected (Thrown None))
     \<lparr>situationText = js [CHR '' '', CHR 0x09, CHR 0x0A], mode = js ''deep'', loading = False,
      result = Some \<lparr>hazard = Some (js ''flood''), hazardSource = None, guidesUsed = None,
                     canDeepDive = None, guidance = None, mode_field = None\<rparr>,
      error = js ''Something went wrong. Please try again.''\<rparr>)) = [] \<and>
   result (fst (handleSubmit2 None (Rejected (Thrown None))
     \<lparr>situationText = js [CHR '' '', CHR 0x09, CHR 0x0A], mode = js ''deep'', loading = False,
      result = Some \<lparr>hazard = Some (js ''flood''), hazardSource = None, guidesUsed = None,
                     canDeepDive = None, guidance = None, mode_field = None\<rparr>,
      error = js ''Something went wrong. Please try again.''\<rparr>)) = None \<and>
   \<not> loading (fst (handleSubmit1 (Rejected (Thrown None))
     \<lparr>situationText = js [CHR '' '', CHR 0x09, CHR 0x0A], mode = js ''deep'', loading = False,
      result = Some \<lparr>hazard = Some (js ''flood''), hazardSource = None, guidesUsed = None,
                     canDeepDive = None, guidance = None, mode_field = None\<rparr>,
      error = js ''Something went wrong. Please try again.''\<rparr>))"
proof -
  have t: "trim (js [CHR '' '', CHR 0x09, CHR 0x0A]) = []"
    by (simp add: trim_def js_def is_white_space_def)
  from empty_submission_is_rejected_locally
         [of "\<lparr>situationText = js [CHR '' '', CHR 0x09, CHR 0x0A], mode = js ''deep'',
               loading = False,
               result = Some \<lparr>hazard = Some (js ''flood''), hazardSource = None,
                              guidesUsed = None, canDeepDive = None, guidance = None,
                              mode_field = None\<rparr>,
               error = js ''Something went wrong. Please try again.''\<rparr>"
             "Rejected (Thrown None)" "None" "None" "[]"] t
  show ?thesis by simp
qed

text \<open>
  C4. When the typed text does not trim to the empty string, the submit handler of either
  revision calls \<open>fetch\<close> exactly once, whatever the network then does: a POST with the
  JSON content type whose body is the object \<open>{situationText: trimmed}\<close>, sent to the API
  base followed by \<open>/api/help/deep\<close> when the mode is \<open>deep\<close> and by \<open>/api/help\<close>
  otherwise (so for mode \<open>normal\<close>). No other request is made.
\<close>

theorem submission_posts_once:
  assumes "trim (situationText st) \<noteq> []"
  shows "fetches (snd (handleSubmit1 net st)) =
           [\<lparr>url = API_BASE1 @
                    (if mode st = js ''deep'' then js ''/api/help/deep'' else js ''/api/help''),
             http_method = js ''POST'',
             headers = [(''Content-Type'', ''application/json'')],
             body = JSON_stringify [(''situationText'', trim (situationText st))]\<rparr>] \<and>
         fetches (snd (handleSubmit2 env net st)) =
           [\<lparr>url = API_BASE2 env @
                    (if mode st = js ''deep'' then js ''/api/help/deep'' else js ''/api/help''),
             http_method = js ''POST'',
             headers = [(''Content-Type'', ''application/json'')],
             body = JSON_stringify [(''situationText'', trim (situationText st))]\<rparr>]"
  using assms
  by (simp add: handleSubmit1_def handleSubmit2_def Let_def post_def endpoint_def
           split: sum.split)

theorem submission_posts_once_witness:
  "trim (js ''  I smell gas '') \<noteq> [] \<and>
   fetches (snd (handleSubmit1 (Responded \<lparr>status = 503, json = Inl (Thrown None)\<rparr>)
     \<lparr>situationText = js ''  I smell gas '', mode = js ''normal'', loading = False,
      result = None, error = []\<rparr>)) =
     [\<lparr>url = js ''http://127.0.0.1:5000/api/help'', http_method = js ''POST'',
       headers = [(''Content-Type'', ''application/json'')],
       body = JSON_stringify [(''situationText'', js ''I smell gas'')]\<rparr>] \<and>
   fetches (snd (handleSubmit2 (Some (js ''https://api.example.org/''))
     (Responded \<lparr>status = 503, json = Inl (Thrown None)\<rparr>)
     \<lparr>situationText = js ''  I smell gas '', mode = js ''deep'', loading = False,
      result = None, error = []\<rparr>)) =
     [\<lparr>url = js ''https://api.example.org/api/help/deep'', http_method = js ''POST'',
       headers = [(''Content-Type'', ''application/json'')],
       body = JSON_stringify [(''situationText'', js ''I smell gas'')]\<rparr>]"
proof -
  have t: "trim (js ''  I smell gas '') = js ''I smell gas''"
    by (simp add: trim_def js_def is_white_space_def)
  have n: "js ''I smell gas'' \<noteq> []"
    by (simp add: js_def)
  have b: "API_BASE2 (Some (js ''https://api.example.org/'')) = js ''https://api.example.org''"
    by (simp add: API_BASE2_def or_else_def strip_trailing_slash_def js_def)
  have d: "js ''normal'' \<noteq> js ''deep''"
    by (simp add: js_def)
  from submission_posts_once
         [of "\<lparr>situationText = js ''  I smell gas '', mode = js ''normal'', loading = False,
               result = None, error = []\<rparr>"
             "Responded \<lparr>status = 503, json = Inl (Thrown None)\<rparr>"]
       submission_posts_once
         [of "\<lparr>situationText = js ''  I smell gas '', mode = js ''deep'', loading = False,
               result = None, error = []\<rparr>"
             "Responded \<lparr>status = 503, json = Inl (Thrown None)\<rparr>"
             "Some (js ''https://api.example.org/'')"]
       t n b d
  show ?thesis
    by (simp add: API_BASE1_def) (simp add: js_def)
qed

text \<open>
  C7, as the code has it. For a rendered result whose \<open>guidesUsed\<close> is not empty, the first
  revision, when the result carries a guidance text, displays the pill \<open>Guides: \<close> followed
  by the guide keys joined by \<open>, \<close>, whatever the selected mode; the second revision
  displays that pill exactly when the selected mode is \<open>deep\<close>, and no Guides pill
  otherwise. The pill lists the keys in the order of \<open>guidesUsed\<close>, none dropped: for keys
  without a comma no other sequence of keys gives the same text.
\<close>

theorem guides_pill_lists_keys_in_order:
  assumes "result st = Some r" and "guidesUsed r = Some gs" and "gs \<noteq> []"
  shows "(guidance r \<noteq> None \<longrightarrow>
            guides_pill1 st = Displayed (Some (js ''Guides: '' @ join (js '', '') gs))) \<and>
         guides_pill2 st =
           (if mode st = js ''deep'' then Some (js ''Guides: '' @ join (js '', '') gs) else None) \<and>
         (\<forall>hs. hs \<noteq> [] \<and> (\<forall>k \<in> set gs \<union> set hs. of_char CHR '','' \<notin> set k) \<and>
               join (js '', '') hs = join (js '', '') gs \<longrightarrow> hs = gs)"
proof -
  have sep: "js '', '' = of_char CHR '','' # [of_char CHR '' '']"
    by (simp add: js_def)
  have "hs = gs"
    if "hs \<noteq> []" and "\<forall>k \<in> set gs \<union> set hs. of_char CHR '','' \<notin> set k"
      and "join (js '', '') hs = join (js '', '') gs" for hs
    using that assms(3) unfolding sep
    by (intro join_inject [of hs _ gs]) auto
  moreover have "guides_pill1 st = Displayed (Some (js ''Guides: '' @ join (js '', '') gs))"
    if "guidance r \<noteq> None"
    using that assms by (auto simp: guides_pill1_def)
  moreover have "guides_pill2 st =
      (if mode st = js ''deep'' then Some (js ''Guides: '' @ join (js '', '') gs) else None)"
    using assms by (simp add: guides_pill2_def)
  ultimately show ?thesis by blast
qed

theorem guides_pill_lists_keys_in_order_witness:
  "guides_pill1
     \<lparr>situationText = [], mode = js ''normal'', loading = False,
      result = Some \<lparr>hazard = Some (js ''wildfire''), hazardSource = Some (js ''rules''),
                     guidesUsed = Some [js ''wildfire_preparedness'', js ''wildfire_toolkit''],
                     canDeepDive = Some True, guidance = Some (js ''Close windows.''),
                     mode_field = Some (js ''deep'')\<rparr>,
      error = []\<rparr> = Displayed (Some (js ''Guides: wildfire_preparedness, wildfire_toolkit'')) \<and>
   guides_pill2
     \<lparr>situationText = [], mode = js ''normal'', loading = False,
      result = Some \<lparr>hazard = Some (js ''wildfire''), hazardSource = Some (js ''rules''),
                     guidesUsed = Some [js ''wildfire_preparedness'', js ''wildfire_toolkit''],
                     canDeepDive = Some True, guidance = Some (js ''Close windows.''),
                     mode_field = Some (js ''deep'')\<rparr>,
      error = []\<rparr> = None \<and>
   guides_pill2
     \<lparr>situationText = [], mode = js ''deep'', loading = False,
      result = Some \<lparr>hazard = Some (js ''wildfire''), hazardSource = Some (js ''rules''),
                     guidesUsed = Some [js ''wildfire_preparedness'', js ''wildfire_toolkit''],
                     canDeepDive = Some True, guidance = None,
                     mode_field = Some (js ''deep'')\<rparr>,
      error = []\<rparr> = Some (js ''Guides: wildfire_preparedness, wildfire_toolkit'')"
proof -
  let ?gs = "[js ''wildfire_preparedness'', js ''wildfire_toolkit'']"
  let ?r = "\<lparr>hazard = Some (js ''wildfire''), hazardSource = Some (js ''rules''),
             guidesUsed = Some ?gs, canDeepDive = Some True,
             guidance = Some (js ''Close windows.''), mode_field = Some (js ''deep'')\<rparr>"
  let ?r' = "\<lparr>hazard = Some (js ''wildfire''), hazardSource = Some (js ''rules''),
              guidesUsed = Some ?gs, canDeepDive = Some True,
              guidance = None, mode_field = Some (js ''deep'')\<rparr>"
  have j: "js ''Guides: '' @ join (js '', '') ?gs
             = js ''Guides: wildfire_preparedness, wildfire_toolkit''"
    by (simp add: js_def)
  have d: "js ''normal'' \<noteq> js ''deep''"
    by (simp add: js_def)
  from guides_pill_lists_keys_in_order
         [of "\<lparr>situationText = [], mode = js ''normal'', loading = False,
               result = Some ?r, error = []\<rparr>" ?r ?gs]
       guides_pill_lists_keys_in_order
         [of "\<lparr>situationText = [], mode = js ''deep'', loading = False,
               result = Some ?r', error = []\<rparr>" ?r' ?gs]
       j d
  show ?thesis by simp
qed

text \<open>
  C7 as stated fails on the second revision: after a normal-mode request whose response
  carries two guide keys (the sample response of the README), the first revision shows the
  pill and the second (\<open>guidesUsed?.length > 0 && mode === 'deep'\<close>) shows none.
\<close>

theorem guides_pill_absent_in_normal_mode:
  "guides_pill2 (fst (run (step2 None)
      [Change (js ''My basement is flooding''),
       Submit (Responded \<lparr>status = 200,
         json = Inr \<lparr>hazard = Some (js ''flood''), hazardSource = Some (js ''rules''),
                      guidesUsed = Some [js ''flood_preparedness'', js ''fema_are_you_ready''],
                      canDeepDive = Some True,
                      guidance = Some (js ''Stay calm.''),
                      mode_field = Some (js ''normal'')\<rparr>\<rparr>)]
      initial_state)) = None \<and>
   guides_pill1 (fst (run step1
      [Change (js ''My basement is flooding''),
       Submit (Responded \<lparr>status = 200,
         json = Inr \<lparr>hazard = Some (js ''flood''), hazardSource = Some (js ''rules''),
                      guidesUsed = Some [js ''flood_preparedness'', js ''fema_are_you_ready''],
                      canDeepDive = Some True,
                      guidance = Some (js ''Stay calm.''),
                      mode_field = Some (js ''normal'')\<rparr>\<rparr>)]
      initial_state))
     = Displayed (Some (js ''Guides: flood_preparedness, fema_are_you_ready''))"
  by (simp add: guides_pill2_def guides_pill1_def initial_state_def handleSubmit2_def
        handleSubmit1_def Let_def trim_def is_white_space_def await_data_def ok_def js_def)

text \<open>
  C5. In every execution of the frontend (either revision, any sequence of user actions
  and network outcomes, any analytics environment) the calls of \<open>trackEvent\<close> and the
  \<open>gtag\<close> calls they and \<open>trackPageView\<close> make are the same as in the execution in
  which every typed text is replaced by a placeholder that only keeps whether the text
  trims to the empty string: the Situation text does not reach the analytics service.
  Every argument object of \<open>trackEvent\<close> has an action and a category that are literals of
  the source, no value, and a label that is a literal, the mode, the hazard field of a
  response, or the message of an error.
\<close>

theorem situation_text_never_reaches_analytics:
  "tracked (execution1 (map blind es)) = tracked (execution1 es) \<and>
   analytics w (execution1 (map blind es)) = analytics w (execution1 es) \<and>
   (\<forall>a \<in> set (tracked (execution1 es)). drawn_from (outcome_labels es) a) \<and>
   tracked (execution2 env (map blind es)) = tracked (execution2 env es) \<and>
   analytics w (execution2 env (map blind es)) = analytics w (execution2 env es) \<and>
   (\<forall>a \<in> set (tracked (execution2 env es)). drawn_from (outcome_labels es) a)"
  using blind_execution1 [of es] blind_execution2 [of env es]
    execution1_drawn [of es] execution2_drawn [of env es]
  by (simp add: same_tracking_def)

theorem situation_text_never_reaches_analytics_witness:
  "tracked (execution2 None
      [Change (js ''I smell gas at 12 Elm Street''), Check True,
       Submit (Responded \<lparr>status = 200,
         json = Inr \<lparr>hazard = Some (js ''gas_leak''), hazardSource = Some (js ''rules''),
                      guidesUsed = Some [], canDeepDive = Some False,
                      guidance = Some (js ''Leave the building.''),
                      mode_field = Some (js ''deep'')\<rparr>\<rparr>)])
     = [event ''submit_help_request'' ''help'' (js ''deep''),
        event ''help_request_success'' ''help'' (js ''gas_leak'')] \<and>
   drawn_from {js ''gas_leak''} (event ''help_request_success'' ''help'' (js ''gas_leak''))"
proof -
  let ?net = "Responded \<lparr>status = 200,
         json = Inr \<lparr>hazard = Some (js ''gas_leak''), hazardSource = Some (js ''rules''),
                      guidesUsed = Some [], canDeepDive = Some False,
                      guidance = Some (js ''Leave the building.''),
                      mode_field = Some (js ''deep'')\<rparr>\<rparr>"
  let ?es = "[Change (js ''I smell gas at 12 Elm Street''), Check True, Submit ?net]"
  have t: "trim (js ''I smell gas at 12 Elm Street'') \<noteq> []"
    by (simp add: trim_def js_def is_white_space_def)
  then have b: "map blind ?es = [Change (js ''x''), Check True, Submit ?net]"
    by simp
  have x: "tracked (execution2 None [Change (js ''x''), Check True, Submit ?net])
             = [event ''submit_help_request'' ''help'' (js ''deep''),
                event ''help_request_success'' ''help'' (js ''gas_leak'')]"
    by (simp add: execution2_def initial_state_def handleSubmit2_def Let_def trim_def
          is_white_space_def await_data_def ok_def or_else_def js_def)
  have l: "outcome_labels ?es = {js ''gas_leak''}"
    by (simp add: outcome_label_def await_data_def ok_def or_else_def js_def)
  from situation_text_never_reaches_analytics [of ?es "Some (Window (Function Returns))" None]
  have 1: "tracked (execution2 None (map blind ?es)) = tracked (execution2 None ?es)"
    and 2: "\<forall>a \<in> set (tracked (execution2 None ?es)). drawn_from (outcome_labels ?es) a"
    by blast+
  from 1 b x have 3: "tracked (execution2 None ?es)
             = [event ''submit_help_request'' ''help'' (js ''deep''),
                event ''help_request_success'' ''help'' (js ''gas_leak'')]"
    by simp
  with 2 l show ?thesis by simp
qed

section \<open>Properties of the pipeline\<close>

lemma ai_calls_append [simp]: "ai_calls (xs @ ys) = ai_calls xs @ ai_calls ys"
  by (induction xs rule: ai_calls.induct) simp_all

lemma ai_calls_short_form [simp]: "ai_calls (snd (short_form cfg ext text h)) = []"
  by (simp add: short_form_def split: option.split)

lemma ai_calls_document_informed [simp]:
  "ai_calls (snd (document_informed cfg ext now catalog text h)) = []"
  by (simp add: document_informed_def split_beta split: option.split)

lemma validate_degraded:
  "degraded labels reply \<Longrightarrow> validate labels reply = ''unknown_general''"
  by (auto simp: degraded_def validate_def split: classifier_reply.splits)

lemma short_form_nonempty:
  "generic_steps cfg \<noteq> [] \<Longrightarrow> fst (short_form cfg ext text h) \<noteq> []"
  by (auto simp: short_form_def usable_def split: option.splits if_splits)

lemma document_informed_nonempty:
  "generic_steps cfg \<noteq> [] \<Longrightarrow> fst (document_informed cfg ext now catalog text h) \<noteq> []"
  using short_form_nonempty [of cfg ext "text" h]
  by (auto simp: document_informed_def usable_def split_beta split: option.splits if_splits)

lemma document_informed_fallback:
  "guide_resolver catalog h = [] \<or> live_handles now catalog h = [] \<or>
   usable (reasoning ext text h (live_handles now catalog h)) = None \<Longrightarrow>
   fst (document_informed cfg ext now catalog text h) = fst (short_form cfg ext text h)"
  by (auto simp: document_informed_def split_beta)

lemma rule_classifier_first_match:
  "matches text \<Longrightarrow> \<forall>r \<in> set before. \<not> snd r text \<Longrightarrow>
   rule_classifier (before @ (h, matches) # after) text = Some h"
  by (induction before) auto

lemma rule_classifier_None: "rule_classifier rs text = None \<longleftrightarrow> (\<forall>r \<in> set rs. \<not> snd r text)"
  by (induction rs "text" rule: rule_classifier.induct) simp_all

lemma pipeline_hazard_and_guides:
  assumes "classification ext' text = classification ext text"
  shows "res_hazard (fst (pipeline cfg ext' now' catalog m text))
           = res_hazard (fst (pipeline cfg ext now catalog m text)) \<and>
         res_guidesUsed (fst (pipeline cfg ext' now' catalog m text))
           = res_guidesUsed (fst (pipeline cfg ext now catalog m text))"
  using assms
  by (simp add: pipeline_def classify_def ai_classifier_def split_beta split: option.split)

section \<open>Claims about the pipeline\<close>

text \<open>
  C1. For every input text that matches a medical-emergency keyword the pipeline ends at
  the Medical Short-Circuit: the response has hazard \<open>medical_emergency\<close>, source
  \<open>rules\<close>, no guides, \<open>canDeepDive\<close> false and the fixed guidance of the medical response
  (the configured text that tells the user to call emergency services), and the request
  invokes nothing: no classifier, no external call. The same holds at both endpoints.
\<close>

theorem medical_short_circuit_is_terminal:
  assumes "medical_short_circuit (medical_keywords cfg) text"
  shows "pipeline cfg ext now catalog m text =
           (\<lparr>res_hazard = ''medical_emergency'', res_hazardSource = Rules, res_guidesUsed = [],
             res_canDeepDive = False, res_guidance = medical_guidance cfg, res_mode = m\<rparr>, []) \<and>
         api_help_deep cfg ext now catalog (Some text) =
           Inr (\<lparr>res_hazard = ''medical_emergency'', res_hazardSource = Rules,
                 res_guidesUsed = [], res_canDeepDive = False,
                 res_guidance = medical_guidance cfg, res_mode = Deep\<rparr>, []) \<and>
         (text \<noteq> [] \<longrightarrow>
            api_help cfg ext now catalog (Some text) =
              Inr (\<lparr>res_hazard = ''medical_emergency'', res_hazardSource = Rules,
                    res_guidesUsed = [], res_canDeepDive = False,
                    res_guidance = medical_guidance cfg, res_mode = Normal\<rparr>, []))"
  using assms by (simp add: pipeline_def api_help_def api_help_deep_def)

theorem medical_short_circuit_is_terminal_witness:
  "medical_short_circuit (medical_keywords example_config) ''He is UNCONSCIOUS after the flood'' \<and>
   api_help example_config example_external 50 example_catalog
       (Some ''He is UNCONSCIOUS after the flood'') =
     Inr (\<lparr>res_hazard = ''medical_emergency'', res_hazardSource = Rules, res_guidesUsed = [],
           res_canDeepDive = False,
           res_guidance = ''Call emergency services (911 or your local emergency number) now.'',
           res_mode = Normal\<rparr>, [])"
proof -
  have m: "medical_short_circuit (medical_keywords example_config)
             ''He is UNCONSCIOUS after the flood''"
    by code_simp
  have g: "medical_guidance example_config
             = ''Call emergency services (911 or your local emergency number) now.''"
    by (simp add: example_config_def)
  from medical_short_circuit_is_terminal
         [OF m, of example_external 50 example_catalog Normal] m g
  show ?thesis by simp
qed

text \<open>
  C2, as the pipeline has it. For every input text that does not trigger the Medical
  Short-Circuit and matches no rule, the AI Classifier is invoked exactly once, with the
  text; the hazard is the validated answer with source \<open>ai\<close>, and it is
  \<open>unknown_general\<close> whenever the answer is a label outside the taxonomy, empty,
  malformed, a timeout or a transport failure. The request does not fail: each endpoint
  answers with the pipeline's response. When a rule matched, the AI Classifier is not
  invoked, and the hazard is the rule's with source \<open>rules\<close>.
\<close>

theorem ai_classifier_is_the_fallback:
  "(\<not> medical_short_circuit (medical_keywords cfg) text \<and>
    rule_classifier (rules cfg) text = None \<longrightarrow>
      ai_calls (snd (pipeline cfg ext now catalog m text)) = [text] \<and>
      res_hazardSource (fst (pipeline cfg ext now catalog m text)) = AI \<and>
      res_hazard (fst (pipeline cfg ext now catalog m text))
        = validate (taxonomy cfg) (classification ext text) \<and>
      (degraded (taxonomy cfg) (classification ext text) \<longrightarrow>
         res_hazard (fst (pipeline cfg ext now catalog m text)) = ''unknown_general'')) \<and>
   (rule_classifier (rules cfg) text = Some h \<longrightarrow>
      ai_calls (snd (pipeline cfg ext now catalog m text)) = [] \<and>
      (\<not> medical_short_circuit (medical_keywords cfg) text \<longrightarrow>
         res_hazard (fst (pipeline cfg ext now catalog m text)) = h \<and>
         res_hazardSource (fst (pipeline cfg ext now catalog m text)) = Rules)) \<and>
   (text \<noteq> [] \<longrightarrow>
      api_help cfg ext now catalog (Some text)
        = Inr (pipeline cfg ext now catalog Normal text)) \<and>
   api_help_deep cfg ext now catalog (Some text) = Inr (pipeline cfg ext now catalog Deep text)"
  by (cases m)
     (auto simp: pipeline_def classify_def ai_classifier_def api_help_def api_help_deep_def
        split_beta validate_degraded)

theorem ai_classifier_is_the_fallback_witness:
  "\<not> medical_short_circuit (medical_keywords example_config) ''Lava is coming down the street'' \<and>
   rule_classifier (rules example_config) ''Lava is coming down the street'' = None \<and>
   degraded (taxonomy example_config)
     (classification example_external ''Lava is coming down the street'') \<and>
   ai_calls (snd (pipeline example_config example_external 50 example_catalog Normal
                    ''Lava is coming down the street''))
     = [''Lava is coming down the street''] \<and>
   res_hazard (fst (pipeline example_config example_external 50 example_catalog Normal
                    ''Lava is coming down the street'')) = ''unknown_general'' \<and>
   rule_classifier (rules example_config) ''My basement is flooding'' = Some ''flood'' \<and>
   ai_calls (snd (pipeline example_config example_external 50 example_catalog Normal
                    ''My basement is flooding'')) = []"
proof -
  have a: "\<not> medical_short_circuit (medical_keywords example_config)
               ''Lava is coming down the street''"
    by code_simp
  have b: "rule_classifier (rules example_config) ''Lava is coming down the street'' = None"
    by code_simp
  have c: "degraded (taxonomy example_config)
             (classification example_external ''Lava is coming down the street'')"
    by code_simp
  have d: "rule_classifier (rules example_config) ''My basement is flooding'' = Some ''flood''"
    by code_simp
  from ai_classifier_is_the_fallback
         [of example_config "''Lava is coming down the street''" example_external 50
             example_catalog Normal]
       ai_classifier_is_the_fallback
         [of example_config "''My basement is flooding''" example_external 50
             example_catalog Normal "''flood''"]
       a b c d
  show ?thesis by blast
qed

text \<open>
  C2 as stated fails on a text that triggers the Medical Short-Circuit: it matches no
  rule of the Rule Classifier, and the AI Classifier is invoked not once but never (4.1).
\<close>

theorem medical_text_reaches_no_classifier:
  "rule_classifier (rules example_config) ''He has chest pain'' = None \<and>
   ai_calls (snd (pipeline example_config example_external 50 example_catalog Normal
                    ''He has chest pain'')) = [] \<and>
   ai_calls (snd (pipeline example_config example_external 50 example_catalog Deep
                    ''He has chest pain'')) = []"
  by code_simp

text \<open>
  C3. A deep-mode request whose \<open>situationText\<close> is present is never answered with an
  error: the endpoint returns the pipeline's response, with mode \<open>deep\<close> and a guidance
  text that is not empty (the two fixed texts of the configuration being non-empty). When
  no guide is resolved, or no handle of a resolved guide is present and unexpired, or the
  document-informed call fails, the guidance is what short-form synthesis produces.
\<close>

theorem deep_mode_degrades_to_short_form:
  assumes "medical_guidance cfg \<noteq> []" and "generic_steps cfg \<noteq> []"
  shows "api_help_deep cfg ext now catalog (Some text)
           = Inr (pipeline cfg ext now catalog Deep text) \<and>
         res_mode (fst (pipeline cfg ext now catalog Deep text)) = Deep \<and>
         res_guidance (fst (pipeline cfg ext now catalog Deep text)) \<noteq> [] \<and>
         (\<not> medical_short_circuit (medical_keywords cfg) text \<and>
          (res_guidesUsed (fst (pipeline cfg ext now catalog Deep text)) = [] \<or>
           live_handles now catalog (res_hazard (fst (pipeline cfg ext now catalog Deep text))) = [] \<or>
           usable (reasoning ext text (res_hazard (fst (pipeline cfg ext now catalog Deep text)))
                     (live_handles now catalog
                        (res_hazard (fst (pipeline cfg ext now catalog Deep text))))) = None) \<longrightarrow>
          res_guidance (fst (pipeline cfg ext now catalog Deep text))
            = fst (short_form cfg ext text
                     (res_hazard (fst (pipeline cfg ext now catalog Deep text)))))"
  using assms
    document_informed_nonempty [of cfg ext now catalog "text" "fst (fst (classify cfg ext text))"]
    document_informed_fallback [of catalog "fst (fst (classify cfg ext text))" now ext "text" cfg]
  by (auto simp: api_help_deep_def pipeline_def split_beta)

theorem deep_mode_degrades_to_short_form_witness:
  "medical_guidance example_config \<noteq> [] \<and> generic_steps example_config \<noteq> [] \<and>
   \<not> medical_short_circuit (medical_keywords example_config) ''My basement is flooding'' \<and>
   api_help_deep example_config example_external 50 example_catalog
       (Some ''My basement is flooding'') =
     Inr (\<lparr>res_hazard = ''flood'', res_hazardSource = Rules,
           res_guidesUsed = [''flood_preparedness'', ''fema_are_you_ready''],
           res_canDeepDive = True, res_guidance = ''1. Stay calm.'', res_mode = Deep\<rparr>,
          [RuleClassification ''My basement is flooding'',
           Reasoning ''My basement is flooding'' ''flood'' [''files/flood-1''],
           Reasoning ''My basement is flooding'' ''flood'' []]) \<and>
   fst (short_form example_config example_external ''My basement is flooding'' ''flood'')
     = ''1. Stay calm.'' \<and>
   res_guidance (fst (pipeline example_config unreachable_external 500 example_catalog Deep
                        ''My basement is flooding''))
     = ''1. Move to a safe place. 2. Call your local emergency number.''"
proof -
  have a: "medical_guidance example_config \<noteq> []" and b: "generic_steps example_config \<noteq> []"
    by (simp_all add: example_config_def)
  have c: "\<not> medical_short_circuit (medical_keywords example_config) ''My basement is flooding''"
    by code_simp
  have p: "pipeline example_config example_external 50 example_catalog Deep
             ''My basement is flooding'' =
           (\<lparr>res_hazard = ''flood'', res_hazardSource = Rules,
             res_guidesUsed = [''flood_preparedness'', ''fema_are_you_ready''],
             res_canDeepDive = True, res_guidance = ''1. Stay calm.'', res_mode = Deep\<rparr>,
            [RuleClassification ''My basement is flooding'',
             Reasoning ''My basement is flooding'' ''flood'' [''files/flood-1''],
             Reasoning ''My basement is flooding'' ''flood'' []])"
    by code_simp
  have h: "res_hazard (fst (pipeline example_config unreachable_external 500 example_catalog Deep
             ''My basement is flooding'')) = ''flood''"
    by code_simp
  have l: "live_handles 500 example_catalog ''flood'' = []"
    by code_simp
  have s: "fst (short_form example_config example_external ''My basement is flooding'' ''flood'')
             = ''1. Stay calm.''"
    by code_simp
  have u: "fst (short_form example_config unreachable_external ''My basement is flooding'' ''flood'')
             = ''1. Move to a safe place. 2. Call your local emergency number.''"
    by code_simp
  from deep_mode_degrades_to_short_form
         [OF a b, of example_external 50 example_catalog "''My basement is flooding''"] p
  have 1: "api_help_deep example_config example_external 50 example_catalog
             (Some ''My basement is flooding'') =
           Inr (\<lparr>res_hazard = ''flood'', res_hazardSource = Rules,
                 res_guidesUsed = [''flood_preparedness'', ''fema_are_you_ready''],
                 res_canDeepDive = True, res_guidance = ''1. Stay calm.'', res_mode = Deep\<rparr>,
                [RuleClassification ''My basement is flooding'',
                 Reasoning ''My basement is flooding'' ''flood'' [''files/flood-1''],
                 Reasoning ''My basement is flooding'' ''flood'' []])"
    by simp
  from deep_mode_degrades_to_short_form
         [OF a b, of unreachable_external 500 example_catalog "''My basement is flooding''"]
       c h l u
  have 2: "res_guidance (fst (pipeline example_config unreachable_external 500 example_catalog
             Deep ''My basement is flooding''))
           = ''1. Move to a safe place. 2. Call your local emergency number.''"
    by simp
  from a b c 1 2 s show ?thesis by blast
qed

text \<open>
  C6. Two \<open>/api/help\<close> requests with the same input, configuration and catalog snapshot
  give the same hazard and the same \<open>guidesUsed\<close> (or both a 400) as soon as the
  classification capability answers alike; the time of the request and the answers of the
  reasoning capability have no influence. The pipeline holds no state between requests
  (5), so two runs are two evaluations. Rule classification returns the hazard of the
  first rule that matches, and "unknown" exactly when no rule matches.
\<close>

theorem help_is_repeatable:
  "(classification ext' = classification ext \<longrightarrow>
      map_sum id (\<lambda>p. (res_hazard (fst p), res_guidesUsed (fst p)))
        (api_help cfg ext' now' catalog situation)
      = map_sum id (\<lambda>p. (res_hazard (fst p), res_guidesUsed (fst p)))
          (api_help cfg ext now catalog situation)) \<and>
   (matches text \<and> (\<forall>r \<in> set before. \<not> snd r text) \<longrightarrow>
      rule_classifier (before @ (h, matches) # after) text = Some h) \<and>
   (rule_classifier rs text = None \<longleftrightarrow> (\<forall>r \<in> set rs. \<not> snd r text))"
proof -
  have "map_sum id (\<lambda>p. (res_hazard (fst p), res_guidesUsed (fst p)))
          (api_help cfg ext' now' catalog situation)
        = map_sum id (\<lambda>p. (res_hazard (fst p), res_guidesUsed (fst p)))
            (api_help cfg ext now catalog situation)"
    if "classification ext' = classification ext"
  proof (cases situation)
    case None
    then show ?thesis by (simp add: api_help_def)
  next
    case (Some t)
    from that have "classification ext' t = classification ext t" by simp
    from pipeline_hazard_and_guides [OF this, of cfg now' catalog Normal now] Some
    show ?thesis by (simp add: api_help_def)
  qed
  moreover have "rule_classifier (before @ (h, matches) # after) text = Some h"
    if "matches text" and "\<forall>r \<in> set before. \<not> snd r text"
    using that by (rule rule_classifier_first_match)
  ultimately show ?thesis
    using rule_classifier_None [of rs "text"] by blast
qed

theorem help_is_repeatable_witness:
  "map_sum id (\<lambda>p. (res_hazard (fst p), res_guidesUsed (fst p)))
     (api_help example_config
        (example_external\<lparr>reasoning := (\<lambda>t h fs. None)\<rparr>) 500 example_catalog
        (Some ''Flooding, and there is a wildfire''))
     = Inr (''flood'', [''flood_preparedness'', ''fema_are_you_ready'']) \<and>
   rule_classifier (rules example_config) ''Flooding, and there is a wildfire'' = Some ''flood''"
proof -
  have c: "classification (example_external\<lparr>reasoning := (\<lambda>t h fs. None)\<rparr>)
             = classification example_external"
    by simp
  have v: "map_sum id (\<lambda>p. (res_hazard (fst p), res_guidesUsed (fst p)))
             (api_help example_config example_external 50 example_catalog
                (Some ''Flooding, and there is a wildfire''))
           = Inr (''flood'', [''flood_preparedness'', ''fema_are_you_ready''])"
    by code_simp
  have r: "rules example_config =
             [] @ (''flood'', \<lambda>t. contains ''flood'' (lower t)) #
             [(''wildfire'', \<lambda>t. contains ''wildfire'' (lower t)),
              (''gas_leak'', \<lambda>t. contains ''smell gas'' (lower t))]"
    by (simp add: example_config_def)
  have m: "contains ''flood'' (lower ''Flooding, and there is a wildfire'')"
    by code_simp
  from help_is_repeatable
         [of "example_external\<lparr>reasoning := (\<lambda>t h fs. None)\<rparr>" example_external
             example_config 500 example_catalog "Some ''Flooding, and there is a wildfire''" 50
             "\<lambda>t. contains ''flood'' (lower t)" "''Flooding, and there is a wildfire''" "[]"
             "''flood''"
             "[(''wildfire'', \<lambda>t. contains ''wildfire'' (lower t)),
               (''gas_leak'', \<lambda>t. contains ''smell gas'' (lower t))]"]
       c v m
  show ?thesis unfolding r by simp
qed

end
